theory Spec2Isabelle
  imports Main
begin

section \<open>Common data: values, errors, maps, effect logs\<close>

text \<open>
  Structured data crossing the system boundary (tool descriptions, tool results, bridge
  payloads) is JSON. Numbers are only ever carried, never computed with, by the code
  modelled here; the literals of the source are integers.
\<close>

datatype json =
    JNull
  | JBool bool
  | JNum int
  | JStr string
  | JArr "json list"
  | JObj "(string \<times> json) list"

text \<open>Property access \<open>obj.key\<close> on an object literal; \<open>None\<close> is \<open>undefined\<close>.\<close>

fun json_get :: "json \<Rightarrow> string \<Rightarrow> json option" where
  "json_get (JObj fields) key = map_of fields key"
| "json_get _ key = None"

text \<open>
  Every \<open>throw\<close> of the modelled code is a value of \<open>js_error\<close>. The code throws plain
  \<open>Error\<close> objects that differ in their message only; one constructor per message:
  \<^item> \<open>Thrown m\<close>: an error raised by a collaborator (the MCP SDK, \<open>fetch\<close>, a JSON
    parser), with its message \<open>m\<close>;
  \<^item> \<open>ServerNotConnected\<close>: \<open>Error('Server not found or not connected')\<close>;
  \<^item> \<open>ServerIdAndNameRequired\<close>: \<open>Error('Server ID and name are required')\<close>;
  \<^item> \<open>CommandRequired\<close>: \<open>Error('Command is required for stdio transport')\<close>;
  \<^item> \<open>UrlRequired\<close>: \<open>Error('URL is required for SSE/WebSocket transport')\<close>;
  \<^item> \<open>ServerAlreadyExists i\<close>: \<open>Error(`Server with ID '${i}' already exists`)\<close>;
  \<^item> \<open>ApiError m\<close>: \<open>Error(m)\<close>, \<open>m\<close> taken from the body of a failed API response;
  \<^item> \<open>SseUrlRequired\<close>: \<open>Error('SSE URL is required')\<close>;
  \<^item> \<open>SseEndpointUnavailable s\<close>: \<open>Error(`SSE endpoint unavailable: ${s}`)\<close>;
  \<^item> \<open>WebSocketUrlRequired\<close>: \<open>Error('WebSocket URL is required')\<close>;
  \<^item> \<open>WebSocketUrlScheme\<close>: \<open>Error('WebSocket URL must start with ws:// or wss://')\<close>;
  \<^item> \<open>FailedToListTools\<close>: \<open>Error('Failed to list tools')\<close>;
  \<^item> \<open>BridgeRequestFailed s\<close>: \<open>Error(`Bridge request failed: ${s}`)\<close>.
\<close>

datatype js_error =
    Thrown string
  | ServerNotConnected
  | ServerIdAndNameRequired
  | CommandRequired
  | UrlRequired
  | ServerAlreadyExists string
  | ApiError string
  | SseUrlRequired
  | SseEndpointUnavailable nat
  | WebSocketUrlRequired
  | WebSocketUrlScheme
  | FailedToListTools
  | BridgeRequestFailed nat

text \<open>
  A JavaScript \<open>Map\<close> keeps its entries in insertion order, one per key. It is an
  association list: \<open>map_get\<close> is \<open>Map.get\<close> (\<open>None\<close> for \<open>undefined\<close>), \<open>map_set\<close> is
  \<open>Map.set\<close> (an existing key keeps its place and takes the new value, a new key goes
  last), \<open>map_delete\<close> is \<open>Map.delete\<close>.
\<close>

definition map_get :: "('k \<times> 'v) list \<Rightarrow> 'k \<Rightarrow> 'v option" where
  "map_get m k = map_of m k"

fun map_set :: "'k \<Rightarrow> 'v \<Rightarrow> ('k \<times> 'v) list \<Rightarrow> ('k \<times> 'v) list" where
  "map_set k v [] = [(k, v)]"
| "map_set k v ((k', v') # m) = (if k' = k then (k, v) # m else (k', v') # map_set k v m)"

definition map_delete :: "'k \<Rightarrow> ('k \<times> 'v) list \<Rightarrow> ('k \<times> 'v) list" where
  "map_delete k m = filter (\<lambda>entry. fst entry \<noteq> k) m"

text \<open>
  An asynchronous operation is modelled by what it leaves behind when it settles:
  \<open>result\<close> is \<open>Inr v\<close> when the promise resolves with \<open>v\<close> and \<open>Inl e\<close> when it rejects
  with \<open>e\<close>; \<open>after\<close> is the mutable state the operation works on, as it is afterwards;
  \<open>calls\<close> lists, in order, the calls the operation made to the outside (the SDK, the
  network).
\<close>

record ('r, 's, 'c) run =
  result :: "js_error + 'r"
  after :: 's
  calls :: "'c list"

section \<open>The server-side manager (\<open>ServerSideMCPManager\<close>)\<close>

type_synonym env = "string \<rightharpoonup> string"

text \<open>The parameter of \<open>addServer\<close>: \<open>{id, name, command, args, env?}\<close>.\<close>

record stdio_config =
  sc_id :: string
  sc_name :: string
  sc_command :: string
  sc_args :: "string list"
  sc_env :: "env option"

text \<open>
  A \<open>StdioClientTransport\<close> is the parameters it was constructed with. A connected SDK
  \<open>Client\<close> and a \<open>ChildProcess\<close> are known by their identity only.
\<close>

datatype StdioClientTransport = NewStdioClientTransport string "string list" env

type_synonym Client = nat
type_synonym ChildProcess = nat

record MCPServerProcess =
  sp_id :: string
  sp_name :: string
  sp_command :: string
  sp_args :: "string list"
  sp_process :: "ChildProcess option"
  sp_client :: "Client option"
  sp_transport :: "StdioClientTransport option"
  sp_isConnected :: bool

type_synonym registry = "(string \<times> MCPServerProcess) list"

text \<open>
  The SDK and the operating system, as the manager sees them: for each call, whether it
  throws (\<open>Inl\<close>) or what it returns.
  \<^item> \<open>process_env\<close>: \<open>process.env\<close>;
  \<^item> \<open>client_connect t\<close>: \<open>new Client(...)\<close> followed by \<open>await client.connect(t)\<close>,
    which spawns the process and performs the handshake; \<open>Inr c\<close> is the connected client;
  \<^item> \<open>client_close c\<close>: \<open>await c.close()\<close>;
  \<^item> \<open>client_listTools c\<close>: \<open>await c.listTools()\<close>; \<open>Inr ts\<close> is the \<open>tools\<close> field of the
    response, \<open>None\<close> when it is missing;
  \<^item> \<open>client_callTool c name args\<close>: \<open>await c.callTool({name, arguments: args})\<close>;
  \<^item> \<open>process_kill p\<close>: \<open>p.kill()\<close>.
\<close>

record sdk =
  process_env :: env
  client_connect :: "StdioClientTransport \<Rightarrow> js_error + Client"
  client_close :: "Client \<Rightarrow> js_error + unit"
  client_listTools :: "Client \<Rightarrow> js_error + json list option"
  client_callTool :: "Client \<Rightarrow> string \<Rightarrow> json \<Rightarrow> js_error + json"
  process_kill :: "ChildProcess \<Rightarrow> js_error + unit"

datatype sdk_call =
    Connect StdioClientTransport
  | Close Client
  | ListTools Client
  | CallTool Client string json
  | Kill ChildProcess

text \<open>
  The transport \<open>addServer\<close> constructs: the command, the arguments, and \<open>process.env\<close>
  overlaid with \<open>config.env\<close>.
\<close>

definition stdio_transport :: "sdk \<Rightarrow> stdio_config \<Rightarrow> StdioClientTransport" where
  "stdio_transport w config =
     NewStdioClientTransport (sc_command config) (sc_args config)
       (process_env w ++ (case sc_env config of None \<Rightarrow> Map.empty | Some e \<Rightarrow> e))"

text \<open>
  \<open>addServer\<close>: the session is stored only after \<open>client.connect\<close> has returned; the
  \<open>catch\<close> logs and rethrows. There is no look-up of \<open>config.id\<close> before
  \<open>this.servers.set\<close>.
\<close>

definition addServer :: "sdk \<Rightarrow> stdio_config \<Rightarrow> registry \<Rightarrow> (unit, registry, sdk_call) run" where
  "addServer w config servers =
     (let serverProcess =
            \<lparr>sp_id = sc_id config, sp_name = sc_name config, sp_command = sc_command config,
             sp_args = sc_args config, sp_process = None, sp_client = None,
             sp_transport = None, sp_isConnected = False\<rparr>;
          transport = stdio_transport w config;
          serverProcess = serverProcess\<lparr>sp_transport := Some transport\<rparr>
      in case client_connect w transport of
           Inl error \<Rightarrow> \<lparr>result = Inl error, after = servers, calls = [Connect transport]\<rparr>
         | Inr client \<Rightarrow>
             \<lparr>result = Inr (),
              after = map_set (sc_id config)
                        (serverProcess\<lparr>sp_client := Some client, sp_isConnected := True\<rparr>) servers,
              calls = [Connect transport]\<rparr>)"

text \<open>
  \<open>removeServer\<close>: an absent id returns at once. Otherwise the \<open>try\<close> block closes the
  client and then kills the process (skipped when \<open>close\<close> threw); its \<open>catch\<close> only
  logs; the entry is deleted in every case.
\<close>

definition removeServer :: "sdk \<Rightarrow> string \<Rightarrow> registry \<Rightarrow> (unit, registry, sdk_call) run" where
  "removeServer w serverId servers =
     (case map_get servers serverId of
        None \<Rightarrow> \<lparr>result = Inr (), after = servers, calls = []\<rparr>
      | Some server \<Rightarrow>
          (let (closed, closing) =
                 (case sp_client server of
                    None \<Rightarrow> (Inr (), [])
                  | Some client \<Rightarrow> (client_close w client, [Close client]));
               killing =
                 (case closed of
                    Inl error \<Rightarrow> []
                  | Inr _ \<Rightarrow> (case sp_process server of None \<Rightarrow> [] | Some p \<Rightarrow> [Kill p]))
           in \<lparr>result = Inr (), after = map_delete serverId servers, calls = closing @ killing\<rparr>))"

text \<open>
  \<open>listTools\<close> and \<open>callTool\<close> share their guard: the session must exist, hold a client
  and be flagged connected. Past the guard the client is called; its error is logged and
  rethrown; \<open>response.tools || []\<close> turns a missing list into the empty one. Neither
  writes to the registry.
\<close>

definition listTools :: "sdk \<Rightarrow> string \<Rightarrow> registry \<Rightarrow> (json list, registry, sdk_call) run" where
  "listTools w serverId servers =
     (case map_get servers serverId of
        None \<Rightarrow> \<lparr>result = Inl ServerNotConnected, after = servers, calls = []\<rparr>
      | Some server \<Rightarrow>
          (case sp_client server of
             None \<Rightarrow> \<lparr>result = Inl ServerNotConnected, after = servers, calls = []\<rparr>
           | Some client \<Rightarrow>
               if \<not> sp_isConnected server
               then \<lparr>result = Inl ServerNotConnected, after = servers, calls = []\<rparr>
               else \<lparr>result =
                       (case client_listTools w client of
                          Inl error \<Rightarrow> Inl error
                        | Inr tools \<Rightarrow> Inr (case tools of None \<Rightarrow> [] | Some ts \<Rightarrow> ts)),
                     after = servers, calls = [ListTools client]\<rparr>))"

definition callTool ::
  "sdk \<Rightarrow> string \<Rightarrow> string \<Rightarrow> json \<Rightarrow> registry \<Rightarrow> (json, registry, sdk_call) run" where
  "callTool w serverId toolName args servers =
     (case map_get servers serverId of
        None \<Rightarrow> \<lparr>result = Inl ServerNotConnected, after = servers, calls = []\<rparr>
      | Some server \<Rightarrow>
          (case sp_client server of
             None \<Rightarrow> \<lparr>result = Inl ServerNotConnected, after = servers, calls = []\<rparr>
           | Some client \<Rightarrow>
               if \<not> sp_isConnected server
               then \<lparr>result = Inl ServerNotConnected, after = servers, calls = []\<rparr>
               else \<lparr>result = client_callTool w client toolName args,
                     after = servers, calls = [CallTool client toolName args]\<rparr>))"

text \<open>
  \<open>getAllTools\<close>: one pass over the entries of the map, in order. A session that is
  flagged connected and holds a client is asked through \<open>listTools\<close>; its tools are
  pushed onto \<open>results\<close>, or the error is caught and logged and the pass moves on. The
  arguments of the loop are the entries still to visit, \<open>results\<close> and the calls made so
  far.
\<close>

fun getAllTools_loop ::
  "sdk \<Rightarrow> registry \<Rightarrow> (string \<times> MCPServerProcess) list \<Rightarrow> (string \<times> json list) list \<Rightarrow>
   sdk_call list \<Rightarrow> (string \<times> json list) list \<times> sdk_call list" where
  "getAllTools_loop w servers [] results made = (results, made)"
| "getAllTools_loop w servers ((serverId, server) # rest) results made =
     (if sp_isConnected server \<and> sp_client server \<noteq> None
      then (let listed = listTools w serverId servers
            in case result listed of
                 Inl error \<Rightarrow> getAllTools_loop w servers rest results (made @ calls listed)
               | Inr tools \<Rightarrow>
                   getAllTools_loop w servers rest (results @ [(serverId, tools)])
                     (made @ calls listed))
      else getAllTools_loop w servers rest results made)"

definition getAllTools :: "sdk \<Rightarrow> registry \<Rightarrow> ((string \<times> json list) list, registry, sdk_call) run" where
  "getAllTools w servers =
     (let (results, made) = getAllTools_loop w servers servers [] []
      in \<lparr>result = Inr results, after = servers, calls = made\<rparr>)"

section \<open>The browser-side client (\<open>MCPClient\<close>, \<open>MCPClientManager\<close>)\<close>

datatype transport = Stdio | Sse | Websocket

text \<open>
  A server as the store and the browser client hold it. Optional members are options
  (\<open>None\<close> is \<open>undefined\<close>); \<open>cfg_transport\<close> is optional because configurations saved by
  earlier versions carry none.
\<close>

record MCPServerConfig =
  cfg_id :: string
  cfg_name :: string
  cfg_transport :: "transport option"
  cfg_command :: "string option"
  cfg_args :: "string list option"
  cfg_env :: "env option"
  cfg_url :: "string option"
  cfg_headers :: "env option"
  cfg_description :: "string option"
  cfg_isConnected :: bool
  cfg_capabilities :: "string list option"

text \<open>\<open>!s\<close> for a string and for an optional string: \<open>undefined\<close> and \<open>''\<close> are falsy.\<close>

definition empty_str :: "string \<Rightarrow> bool" where
  "empty_str s = (s = [])"

definition falsy :: "string option \<Rightarrow> bool" where
  "falsy s = (case s of None \<Rightarrow> True | Some v \<Rightarrow> empty_str v)"

definition startsWith :: "string \<Rightarrow> string \<Rightarrow> bool" where
  "startsWith s p = (take (length p) s = p)"

text \<open>\<open>response.ok\<close>: the status is in the range 200 to 299.\<close>

definition ok :: "nat \<Rightarrow> bool" where
  "ok status = (200 \<le> status \<and> status \<le> 299)"

text \<open>
  What \<open>await fetch(...)\<close> gives: it rejects (a network error), or there is a response
  with a status and a body. The body is typed by the endpoint, as the routes of this
  repository send it; where the code reads the body, its type is \<open>js_error + 'b\<close> with
  \<open>Inl e\<close> when \<open>response.json()\<close> rejects or the code throws \<open>e\<close> on the shape of what it
  got.
\<close>

datatype 'b http = Rejected js_error | Response nat 'b

text \<open>The body of \<open>POST /api/mcp/servers\<close>: \<open>{id, name, command, args, env}\<close>.\<close>

record servers_post =
  body_id :: string
  body_name :: string
  body_command :: "string option"
  body_args :: "string list option"
  body_env :: "env option"

text \<open>A tool as \<open>GET /api/mcp/tools\<close> sends it, and as the client hands it on.\<close>

record wire_tool =
  wire_name :: string
  wire_description :: "string option"
  wire_inputSchema :: "json option"

record MCPTool =
  tool_name :: string
  tool_description :: string
  tool_inputSchema :: "json option"

text \<open>
  The network, as the browser code sees it:
  \<^item> \<open>post_servers b\<close>: \<open>fetch('/api/mcp/servers', {method: 'POST', body: b})\<close>; the body
    read on failure is the \<open>error\<close> member of the JSON, \<open>None\<close> when it has none;
  \<^item> \<open>head_url url headers\<close>: \<open>fetch(url, {method: 'HEAD', headers})\<close>; no body is read;
  \<^item> \<open>get_tools i\<close>: \<open>fetch(`/api/mcp/tools?serverId=${encodeURIComponent(i)}`)\<close>; the
    body read is the \<open>tools\<close> member;
  \<^item> \<open>get_health base\<close>: \<open>fetch(`${base}/health`)\<close>; no body is read;
  \<^item> \<open>post_file_operation base operation path\<close>:
    \<open>fetch(`${base}/api/mcp/file-operations`, {method: 'POST', body: {operation, path}})\<close>.
\<close>

record net =
  post_servers :: "servers_post \<Rightarrow> (js_error + string option) http"
  head_url :: "string \<Rightarrow> env \<Rightarrow> unit http"
  get_tools :: "string \<Rightarrow> (js_error + wire_tool list) http"
  get_health :: "string \<Rightarrow> unit http"
  post_file_operation :: "string \<Rightarrow> string \<Rightarrow> string \<Rightarrow> (js_error + json) http"

datatype fetch_call =
    PostServers servers_post
  | HeadUrl string env
  | GetTools string
  | GetHealth string
  | PostFileOperation string string string

record MCPClient =
  mc_config :: MCPServerConfig
  mc_isConnected :: bool

text \<open>
  The probe of an SSE endpoint, the inner \<open>try\<close> block of \<open>connect\<close>: a \<open>HEAD\<close> request
  with the configured headers and \<open>Accept: text/event-stream\<close>; a status that is neither
  ok nor 405 throws.
\<close>

definition sse_headers :: "MCPServerConfig \<Rightarrow> env" where
  "sse_headers config =
     (case cfg_headers config of None \<Rightarrow> Map.empty | Some h \<Rightarrow> h)
       (''Accept'' \<mapsto> ''text/event-stream'')"

definition sse_probe :: "net \<Rightarrow> MCPServerConfig \<Rightarrow> string \<Rightarrow> js_error + unit" where
  "sse_probe w config url =
     (case head_url w url (sse_headers config) of
        Rejected fetchError \<Rightarrow> Inl fetchError
      | Response status _ \<Rightarrow>
          if \<not> ok status \<and> status \<noteq> 405 then Inl (SseEndpointUnavailable status) else Inr ())"

text \<open>
  The outer \<open>try\<close> block of \<open>connect\<close>, up to the assignment of the flag: one branch per
  transport, none for a transport that is none of the three. The \<open>catch\<close> of the SSE
  probe warns and goes on.
\<close>

definition connect_try :: "net \<Rightarrow> MCPServerConfig \<Rightarrow> (js_error + unit) \<times> fetch_call list" where
  "connect_try w config =
     (if cfg_transport config = Some Stdio then
        (let body = \<lparr>body_id = cfg_id config, body_name = cfg_name config,
                     body_command = cfg_command config, body_args = cfg_args config,
                     body_env = cfg_env config\<rparr>
         in (case post_servers w body of
               Rejected error \<Rightarrow> Inl error
             | Response status b \<Rightarrow>
                 if \<not> ok status
                 then (case b of
                         Inl error \<Rightarrow> Inl error
                       | Inr m \<Rightarrow>
                           Inl (ApiError (if falsy m then ''Failed to connect to stdio MCP server''
                                          else the m)))
                 else Inr (),
             [PostServers body]))
      else if cfg_transport config = Some Sse then
        (case cfg_url config of
           None \<Rightarrow> (Inl SseUrlRequired, [])
         | Some url \<Rightarrow>
             if empty_str url then (Inl SseUrlRequired, [])
             else (case sse_probe w config url of
                     Inl fetchError \<Rightarrow> (Inr (), [HeadUrl url (sse_headers config)])
                   | Inr _ \<Rightarrow> (Inr (), [HeadUrl url (sse_headers config)])))
      else if cfg_transport config = Some Websocket then
        (case cfg_url config of
           None \<Rightarrow> (Inl WebSocketUrlRequired, [])
         | Some url \<Rightarrow>
             if empty_str url then (Inl WebSocketUrlRequired, [])
             else if \<not> startsWith url ''ws://'' \<and> \<not> startsWith url ''wss://''
             then (Inl WebSocketUrlScheme, [])
             else (Inr (), []))
      else (Inr (), []))"

text \<open>
  \<open>connect\<close>: the flag is set when the \<open>try\<close> block gets through; the \<open>catch\<close> clears it
  and rethrows.
\<close>

definition connect :: "net \<Rightarrow> MCPClient \<Rightarrow> (unit, MCPClient, fetch_call) run" where
  "connect w this =
     (case connect_try w (mc_config this) of
        (Inl error, made) \<Rightarrow>
          \<lparr>result = Inl error, after = this\<lparr>mc_isConnected := False\<rparr>, calls = made\<rparr>
      | (Inr _, made) \<Rightarrow>
          \<lparr>result = Inr (), after = this\<lparr>mc_isConnected := True\<rparr>, calls = made\<rparr>)"

text \<open>
  \<open>MCPClient.listTools\<close>: a response that is not ok throws; each tool is copied with
  \<open>description || ''\<close>; the \<open>catch\<close> logs and rethrows.
\<close>

definition MCPClient_listTools :: "net \<Rightarrow> MCPClient \<Rightarrow> (MCPTool list, MCPClient, fetch_call) run" where
  "MCPClient_listTools w this =
     \<lparr>result =
        (case get_tools w (cfg_id (mc_config this)) of
           Rejected error \<Rightarrow> Inl error
         | Response status b \<Rightarrow>
             if \<not> ok status then Inl FailedToListTools
             else (case b of
                     Inl error \<Rightarrow> Inl error
                   | Inr tools \<Rightarrow>
                       Inr (map (\<lambda>tool.
                              \<lparr>tool_name = wire_name tool,
                               tool_description =
                                 (if falsy (wire_description tool) then []
                                  else the (wire_description tool)),
                               tool_inputSchema = wire_inputSchema tool\<rparr>) tools))),
      after = this,
      calls = [GetTools (cfg_id (mc_config this))]\<rparr>"

definition getConnectionStatus :: "MCPClient \<Rightarrow> bool" where
  "getConnectionStatus this = mc_isConnected this"

type_synonym clients = "(string \<times> MCPClient) list"

text \<open>
  \<open>MCPClientManager.addServer\<close>: a new client (flag unset) is connected; it is stored
  only when \<open>connect\<close> returned.
\<close>

definition MCPClientManager_addServer ::
  "net \<Rightarrow> MCPServerConfig \<Rightarrow> clients \<Rightarrow> (unit, clients, fetch_call) run" where
  "MCPClientManager_addServer w config cs =
     (let client = \<lparr>mc_config = config, mc_isConnected = False\<rparr>;
          connected = connect w client
      in case result connected of
           Inl error \<Rightarrow> \<lparr>result = Inl error, after = cs, calls = calls connected\<rparr>
         | Inr _ \<Rightarrow>
             \<lparr>result = Inr (), after = map_set (cfg_id config) (after connected) cs,
              calls = calls connected\<rparr>)"

text \<open>
  \<open>getServerTools\<close>: no client, or a client whose flag is unset, gives the empty list.
  Otherwise the names of the listed tools; when listing throws, the \<open>catch\<close> answers
  with a fixed list for the two demonstration ids and the empty list for the rest.
\<close>

definition getServerTools :: "net \<Rightarrow> string \<Rightarrow> clients \<Rightarrow> (string list, clients, fetch_call) run" where
  "getServerTools w serverId cs =
     (case map_get cs serverId of
        None \<Rightarrow> \<lparr>result = Inr [], after = cs, calls = []\<rparr>
      | Some client \<Rightarrow>
          if \<not> getConnectionStatus client then \<lparr>result = Inr [], after = cs, calls = []\<rparr>
          else (let listed = MCPClient_listTools w client
                in \<lparr>result =
                      (case result listed of
                         Inr tools \<Rightarrow> Inr (map tool_name tools)
                       | Inl error \<Rightarrow>
                           if serverId = ''demo-server-1''
                           then Inr [''file_read'', ''file_write'', ''file_list'', ''dir_create'',
                                     ''search_files'']
                           else if serverId = ''demo-server-2''
                           then Inr [''web_scrape'', ''api_call'', ''http_request'', ''json_parse'',
                                     ''url_validate'']
                           else Inr []),
                    after = cs, calls = calls listed\<rparr>))"

section \<open>The store (\<open>useAppStore\<close>): the MCP actions\<close>

text \<open>
  The part of the store the MCP actions read and write. \<open>mcpClientManager\<close> is the
  \<open>clients\<close> map of the \<open>MCPClientManager\<close> the store holds; \<open>store_error\<close> is the
  store's \<open>error\<close>, held as the error whose message the store keeps.
\<close>

record store =
  mcpServers :: "MCPServerConfig list"
  mcpClientManager :: clients
  availableTools :: "string list"
  isLoading :: bool
  store_error :: "js_error option"

definition simulated_tools :: "string list" where
  "simulated_tools =
     [''file_read'', ''file_write'', ''file_list'', ''dir_create'', ''search_files'',
      ''web_scrape'', ''api_call'', ''data_analysis'', ''image_process'', ''pdf_extract'',
      ''json_parse'', ''csv_read'', ''excel_read'', ''sql_query'', ''http_request'',
      ''text_summarize'', ''translate'', ''sentiment_analysis'', ''keyword_extract'', ''regex_match'',
      ''math_calculate'', ''date_format'', ''string_process'', ''hash_generate'', ''encode_decode'',
      ''git_status'', ''git_commit'', ''git_push'', ''git_pull'', ''git_branch'',
      ''docker_run'', ''docker_build'', ''process_list'', ''system_info'', ''disk_usage'',
      ''network_ping'', ''port_scan'', ''dns_lookup'', ''ssl_check'', ''url_validate'',
      ''email_send'', ''sms_send'']"

text \<open>
  The loop of \<open>refreshMCPTools\<close>: every server flagged connected is asked through
  \<open>getServerTools\<close> and its tools are appended to \<open>totalTools\<close>; an error is caught and
  logged.
\<close>

fun refresh_loop ::
  "net \<Rightarrow> clients \<Rightarrow> MCPServerConfig list \<Rightarrow> string list \<Rightarrow> fetch_call list \<Rightarrow>
   string list \<times> fetch_call list" where
  "refresh_loop w cs [] totalTools made = (totalTools, made)"
| "refresh_loop w cs (server # rest) totalTools made =
     (if cfg_isConnected server
      then (let got = getServerTools w (cfg_id server) cs
            in case result got of
                 Inl error \<Rightarrow> refresh_loop w cs rest totalTools (made @ calls got)
               | Inr serverTools \<Rightarrow>
                   refresh_loop w cs rest (totalTools @ serverTools) (made @ calls got))
      else refresh_loop w cs rest totalTools made)"

text \<open>
  \<open>refreshMCPTools\<close>: when some server is flagged connected and no tool was found, the
  simulated list stands in. Only \<open>availableTools\<close> is written.
\<close>

definition refreshMCPTools :: "net \<Rightarrow> store \<Rightarrow> (unit, store, fetch_call) run" where
  "refreshMCPTools w s =
     (let (totalTools, made) = refresh_loop w (mcpClientManager s) (mcpServers s) [] [];
          totalTools =
            (if list_ex cfg_isConnected (mcpServers s) \<and> length totalTools = 0
             then simulated_tools else totalTools)
      in \<lparr>result = Inr (), after = s\<lparr>availableTools := totalTools\<rparr>, calls = made\<rparr>)"

text \<open>
  The store exists in two revisions, which differ in \<open>addMCPServer\<close> and agree on
  \<open>toggleMCPServer\<close> and \<open>refreshMCPTools\<close>.

  \<open>addMCPServer\<close> below is the one of \<^verbatim>\<open>src/unnamed/part_007\<close>, lines 365 to 404: the
  validation and the check for a server of the same id come before the \<open>try\<close> block and
  throw without writing to the store. Inside, the client manager connects and stores the
  client, the server is appended flagged connected and the tools are refreshed; the
  \<open>catch\<close> keeps the error and rethrows; \<open>finally\<close> clears \<open>isLoading\<close>.
\<close>

definition addMCPServer :: "net \<Rightarrow> MCPServerConfig \<Rightarrow> store \<Rightarrow> (unit, store, fetch_call) run" where
  "addMCPServer w config s =
     (if empty_str (cfg_id config) \<or> empty_str (cfg_name config)
      then \<lparr>result = Inl ServerIdAndNameRequired, after = s, calls = []\<rparr>
      else if cfg_transport config = Some Stdio \<and> falsy (cfg_command config)
      then \<lparr>result = Inl CommandRequired, after = s, calls = []\<rparr>
      else if (cfg_transport config = Some Sse \<or> cfg_transport config = Some Websocket)
              \<and> falsy (cfg_url config)
      then \<lparr>result = Inl UrlRequired, after = s, calls = []\<rparr>
      else if find (\<lambda>x. cfg_id x = cfg_id config) (mcpServers s) \<noteq> None
      then \<lparr>result = Inl (ServerAlreadyExists (cfg_id config)), after = s, calls = []\<rparr>
      else
        (let s1 = s\<lparr>isLoading := True, store_error := None\<rparr>;
             added = MCPClientManager_addServer w config (mcpClientManager s1)
         in case result added of
              Inl e \<Rightarrow>
                \<lparr>result = Inl e,
                 after = s1\<lparr>mcpClientManager := after added, store_error := Some e, isLoading := False\<rparr>,
                 calls = calls added\<rparr>
            | Inr _ \<Rightarrow>
                (let s2 = s1\<lparr>mcpClientManager := after added,
                             mcpServers := mcpServers s1 @ [config\<lparr>cfg_isConnected := True\<rparr>]\<rparr>;
                     refreshed = refreshMCPTools w s2
                 in case result refreshed of
                      Inl e \<Rightarrow>
                        \<lparr>result = Inl e,
                         after = (after refreshed)\<lparr>store_error := Some e, isLoading := False\<rparr>,
                         calls = calls added @ calls refreshed\<rparr>
                    | Inr _ \<Rightarrow>
                        \<lparr>result = Inr (), after = (after refreshed)\<lparr>isLoading := False\<rparr>,
                         calls = calls added @ calls refreshed\<rparr>)))"

text \<open>
  \<open>addMCPServer_unchecked\<close> is the \<open>addMCPServer\<close> of \<^verbatim>\<open>src/src/store/index.ts\<close>, lines
  325 to 345: the same \<open>try\<close> block with nothing before it, neither the validation nor
  the check for a server of the same id.
\<close>

definition addMCPServer_unchecked ::
  "net \<Rightarrow> MCPServerConfig \<Rightarrow> store \<Rightarrow> (unit, store, fetch_call) run" where
  "addMCPServer_unchecked w config s =
     (let s1 = s\<lparr>isLoading := True, store_error := None\<rparr>;
          added = MCPClientManager_addServer w config (mcpClientManager s1)
      in case result added of
           Inl e \<Rightarrow>
             \<lparr>result = Inl e,
              after = s1\<lparr>mcpClientManager := after added, store_error := Some e, isLoading := False\<rparr>,
              calls = calls added\<rparr>
         | Inr _ \<Rightarrow>
             (let s2 = s1\<lparr>mcpClientManager := after added,
                          mcpServers := mcpServers s1 @ [config\<lparr>cfg_isConnected := True\<rparr>]\<rparr>;
                  refreshed = refreshMCPTools w s2
              in case result refreshed of
                   Inl e \<Rightarrow>
                     \<lparr>result = Inl e,
                      after = (after refreshed)\<lparr>store_error := Some e, isLoading := False\<rparr>,
                      calls = calls added @ calls refreshed\<rparr>
                 | Inr _ \<Rightarrow>
                     \<lparr>result = Inr (), after = (after refreshed)\<lparr>isLoading := False\<rparr>,
                      calls = calls added @ calls refreshed\<rparr>))"

text \<open>
  \<open>toggleMCPServer\<close>: a \<open>map\<close> over the servers negates the flag of each server of that
  id; then the tools are refreshed.
\<close>

definition toggleMCPServer :: "net \<Rightarrow> string \<Rightarrow> store \<Rightarrow> (unit, store, fetch_call) run" where
  "toggleMCPServer w serverId s =
     (let servers' =
            map (\<lambda>server.
                   if cfg_id server = serverId
                   then server\<lparr>cfg_isConnected := \<not> cfg_isConnected server\<rparr>
                   else server) (mcpServers s)
      in refreshMCPTools w (s\<lparr>mcpServers := servers'\<rparr>))"

section \<open>The bridge client (\<open>BridgeMCPClient\<close>)\<close>

record BridgeMCPClient =
  bridgeUrl :: string
  br_isConnected :: bool

text \<open>\<open>checkConnection\<close>: the flag is set by an ok answer of the health endpoint only.\<close>

definition checkConnection :: "net \<Rightarrow> BridgeMCPClient \<Rightarrow> (bool, BridgeMCPClient, fetch_call) run" where
  "checkConnection w this =
     (case get_health w (bridgeUrl this) of
        Rejected error \<Rightarrow>
          \<lparr>result = Inr False, after = this\<lparr>br_isConnected := False\<rparr>,
           calls = [GetHealth (bridgeUrl this)]\<rparr>
      | Response status _ \<Rightarrow>
          if ok status
          then \<lparr>result = Inr True, after = this\<lparr>br_isConnected := True\<rparr>,
                calls = [GetHealth (bridgeUrl this)]\<rparr>
          else \<lparr>result = Inr False, after = this\<lparr>br_isConnected := False\<rparr>,
                calls = [GetHealth (bridgeUrl this)]\<rparr>)"

text \<open>The fallback payloads; none reads the client.\<close>

definition getDemoAnalysis :: "string \<Rightarrow> json" where
  "getDemoAnalysis projectPath =
     JObj [(''path'', JStr projectPath),
           (''type'', JStr ''Demo Analysis''),
           (''language'', JStr ''Multiple''),
           (''framework'', JStr ''Modern Web Stack''),
           (''files'', JArr [JStr ''src/'', JStr ''package.json'', JStr ''README.md'',
                             JStr ''tsconfig.json'']),
           (''dependencies'', JObj [(''react'', JStr ''^18.0.0''), (''next'', JStr ''^14.0.0''),
                                    (''typescript'', JStr ''^5.0.0'')]),
           (''structure'',
              JObj [(''src/'', JObj [(''components/'', JObj [(''type'', JStr ''directory'')]),
                                     (''pages/'', JObj [(''type'', JStr ''directory'')]),
                                     (''utils/'', JObj [(''type'', JStr ''directory'')])]),
                    (''package.json'', JObj [(''type'', JStr ''file''), (''size'', JNum 1024)]),
                    (''README.md'', JObj [(''type'', JStr ''file''), (''size'', JNum 2048)])]),
           (''note'', JStr ''This is demo data. Start local bridge server for real analysis.'')]"

definition getDemoFileList :: "string \<Rightarrow> json" where
  "getDemoFileList dirPath =
     JObj [(''files'',
              JArr [JObj [(''name'', JStr ''src''), (''type'', JStr ''directory''),
                          (''path'', JStr (dirPath @ ''/src''))],
                    JObj [(''name'', JStr ''package.json''), (''type'', JStr ''file''),
                          (''path'', JStr (dirPath @ ''/package.json'')), (''size'', JNum 1024)],
                    JObj [(''name'', JStr ''README.md''), (''type'', JStr ''file''),
                          (''path'', JStr (dirPath @ ''/README.md'')), (''size'', JNum 2048)],
                    JObj [(''name'', JStr ''tsconfig.json''), (''type'', JStr ''file''),
                          (''path'', JStr (dirPath @ ''/tsconfig.json'')), (''size'', JNum 512)]]),
           (''note'', JStr ''Demo file listing. Start local bridge server for real data.'')]"

definition getDemoFileContent :: "string \<Rightarrow> json" where
  "getDemoFileContent filePath =
     JObj [(''content'',
              JStr (''// Demo content for '' @ filePath @ [CHR 0x0A]
                    @ ''This is simulated file content.'' @ [CHR 0x0A]
                    @ ''Start the local bridge server to read real files.'' @ [CHR 0x0A]
                    @ [CHR 0x0A]
                    @ ''Bridge Server Setup:'' @ [CHR 0x0A]
                    @ ''1. Run: node local-mcp-bridge.js'' @ [CHR 0x0A]
                    @ ''2. Bridge URL: http://localhost:3001'' @ [CHR 0x0A]
                    @ ''3. Refresh this page'')),
           (''path'', JStr filePath),
           (''note'', JStr ''Demo content. Start local bridge server for real file access.'')]"

text \<open>
  The \<open>try\<close> block the three bridge operations share, which differs in the operation
  named in the request only: the request, the throw on a response that is not ok, and
  \<open>await response.json()\<close>.
\<close>

definition file_operation :: "net \<Rightarrow> BridgeMCPClient \<Rightarrow> string \<Rightarrow> string \<Rightarrow> js_error + json" where
  "file_operation w this operation path =
     (case post_file_operation w (bridgeUrl this) operation path of
        Rejected error \<Rightarrow> Inl error
      | Response status b \<Rightarrow> if \<not> ok status then Inl (BridgeRequestFailed status) else b)"

definition analyzeProject :: "net \<Rightarrow> BridgeMCPClient \<Rightarrow> string \<Rightarrow> (json, BridgeMCPClient, fetch_call) run" where
  "analyzeProject w this projectPath =
     (if \<not> br_isConnected this
      then \<lparr>result = Inr (getDemoAnalysis projectPath), after = this, calls = []\<rparr>
      else \<lparr>result =
              (case file_operation w this ''analyze_project'' projectPath of
                 Inr payload \<Rightarrow> Inr payload
               | Inl error \<Rightarrow> Inr (getDemoAnalysis projectPath)),
            after = this,
            calls = [PostFileOperation (bridgeUrl this) ''analyze_project'' projectPath]\<rparr>)"

definition listFiles :: "net \<Rightarrow> BridgeMCPClient \<Rightarrow> string \<Rightarrow> (json, BridgeMCPClient, fetch_call) run" where
  "listFiles w this dirPath =
     (if \<not> br_isConnected this
      then \<lparr>result = Inr (getDemoFileList dirPath), after = this, calls = []\<rparr>
      else \<lparr>result =
              (case file_operation w this ''list_files'' dirPath of
                 Inr payload \<Rightarrow> Inr payload
               | Inl error \<Rightarrow> Inr (getDemoFileList dirPath)),
            after = this,
            calls = [PostFileOperation (bridgeUrl this) ''list_files'' dirPath]\<rparr>)"

definition readFile :: "net \<Rightarrow> BridgeMCPClient \<Rightarrow> string \<Rightarrow> (json, BridgeMCPClient, fetch_call) run" where
  "readFile w this filePath =
     (if \<not> br_isConnected this
      then \<lparr>result = Inr (getDemoFileContent filePath), after = this, calls = []\<rparr>
      else \<lparr>result =
              (case file_operation w this ''read_file'' filePath of
                 Inr payload \<Rightarrow> Inr payload
               | Inl error \<Rightarrow> Inr (getDemoFileContent filePath)),
            after = this,
            calls = [PostFileOperation (bridgeUrl this) ''read_file'' filePath]\<rparr>)"

section \<open>Vocabulary of the properties\<close>

text \<open>
  What one session adds to the result of \<open>getAllTools\<close>, in the words of its
  description: a session that is connected, holds a client and whose client lists its
  tools adds one pair of its id and those tools; any other session adds nothing.
\<close>

definition contribution :: "sdk \<Rightarrow> string \<times> MCPServerProcess \<Rightarrow> (string \<times> json list) list" where
  "contribution w entry =
     (case sp_client (snd entry) of
        None \<Rightarrow> []
      | Some client \<Rightarrow>
          if sp_isConnected (snd entry)
          then (case client_listTools w client of
                  Inl error \<Rightarrow> []
                | Inr tools \<Rightarrow> [(fst entry, case tools of None \<Rightarrow> [] | Some ts \<Rightarrow> ts)])
          else [])"

text \<open>The calls one session is asked with: one \<open>listTools\<close> when it is connected.\<close>

definition asked :: "string \<times> MCPServerProcess \<Rightarrow> sdk_call list" where
  "asked entry =
     (case sp_client (snd entry) of
        None \<Rightarrow> []
      | Some client \<Rightarrow> if sp_isConnected (snd entry) then [ListTools client] else [])"

text \<open>A server with its \<open>isConnected\<close> negated and every other member as it was.\<close>

definition toggled :: "MCPServerConfig \<Rightarrow> MCPServerConfig" where
  "toggled server = server\<lparr>cfg_isConnected := \<not> cfg_isConnected server\<rparr>"

text \<open>The requests that list tools, as against those that connect, probe or disconnect.\<close>

definition is_GetTools :: "fetch_call \<Rightarrow> bool" where
  "is_GetTools c = (case c of GetTools _ \<Rightarrow> True | _ \<Rightarrow> False)"

text \<open>
  The validation \<open>addMCPServer\<close> (of \<^verbatim>\<open>src/unnamed/part_007\<close>) makes before it looks for
  a server of the same id: an id and a name, a command for stdio, a url for SSE and
  WebSocket.
\<close>

definition passes_validation :: "MCPServerConfig \<Rightarrow> bool" where
  "passes_validation config =
     (\<not> empty_str (cfg_id config) \<and> \<not> empty_str (cfg_name config) \<and>
      \<not> (cfg_transport config = Some Stdio \<and> falsy (cfg_command config)) \<and>
      \<not> ((cfg_transport config = Some Sse \<or> cfg_transport config = Some Websocket)
          \<and> falsy (cfg_url config)))"

text \<open>
  A bridge request that fails at request time: the network rejects it, the response is
  not ok, or its body cannot be read.
\<close>

definition request_fails :: "net \<Rightarrow> BridgeMCPClient \<Rightarrow> string \<Rightarrow> string \<Rightarrow> bool" where
  "request_fails w this operation path =
     (case post_file_operation w (bridgeUrl this) operation path of
        Rejected error \<Rightarrow> True
      | Response status b \<Rightarrow>
          (if ok status then (case b of Inl error \<Rightarrow> True | Inr payload \<Rightarrow> False) else True))"

section \<open>Example inputs\<close>

text \<open>
  An SDK whose every call succeeds (each connect gives client 2, which lists one tool),
  and one on which no process can be spawned.
\<close>

definition sdk_up :: sdk where
  "sdk_up =
     \<lparr>process_env = Map.empty,
      client_connect = (\<lambda>t. Inr 2),
      client_close = (\<lambda>c. Inr ()),
      client_listTools = (\<lambda>c. Inr (Some [JObj [(''name'', JStr ''echo'')]])),
      client_callTool = (\<lambda>c name args. Inr args),
      process_kill = (\<lambda>p. Inr ())\<rparr>"

definition sdk_down :: sdk where
  "sdk_down = sdk_up\<lparr>client_connect := (\<lambda>t. Inl (Thrown ''spawn echo-tool-server ENOENT''))\<rparr>"

definition echo_config :: stdio_config where
  "echo_config =
     \<lparr>sc_id = ''echo'', sc_name = ''Echo'', sc_command = ''echo-tool-server'', sc_args = [],
      sc_env = None\<rparr>"

text \<open>A session as an earlier \<open>addServer\<close> stored it (client 1), and one that is not connected.\<close>

definition echo_session :: MCPServerProcess where
  "echo_session =
     \<lparr>sp_id = ''echo'', sp_name = ''Echo'', sp_command = ''echo-tool-server'', sp_args = [],
      sp_process = None, sp_client = Some 1,
      sp_transport = Some (NewStdioClientTransport ''echo-tool-server'' [] Map.empty),
      sp_isConnected = True\<rparr>"

definition idle_session :: MCPServerProcess where
  "idle_session = echo_session\<lparr>sp_id := ''idle'', sp_name := ''Idle'', sp_isConnected := False\<rparr>"

text \<open>
  The servers the store starts with, a store holding them with no client yet, and a
  client manager holding a connected client for the first.
\<close>

definition demo_server_1 :: MCPServerConfig where
  "demo_server_1 =
     \<lparr>cfg_id = ''demo-server-1'', cfg_name = ''File System Tools'', cfg_transport = Some Stdio,
      cfg_command = Some ''python'', cfg_args = Some [''/path/to/filesystem-mcp.py''],
      cfg_env = None, cfg_url = None, cfg_headers = None,
      cfg_description = Some ''Local file operations and analysis'', cfg_isConnected = True,
      cfg_capabilities = Some [''file_read'', ''file_write'', ''dir_list'']\<rparr>"

definition demo_server_2 :: MCPServerConfig where
  "demo_server_2 =
     \<lparr>cfg_id = ''demo-server-2'', cfg_name = ''Web & API Tools'', cfg_transport = Some Sse,
      cfg_command = None, cfg_args = None, cfg_env = None,
      cfg_url = Some ''http://localhost:8080/mcp/events'', cfg_headers = None,
      cfg_description = Some ''Web scraping and API interactions'', cfg_isConnected = False,
      cfg_capabilities = Some [''web_scrape'', ''api_call'', ''http_request'']\<rparr>"

definition initial_store :: store where
  "initial_store =
     \<lparr>mcpServers = [demo_server_1, demo_server_2], mcpClientManager = [],
      availableTools = simulated_tools, isLoading = False, store_error = None\<rparr>"

definition demo_clients :: clients where
  "demo_clients = [(''demo-server-1'', \<lparr>mc_config = demo_server_1, mc_isConnected = True\<rparr>)]"

text \<open>A network on which every request fails, and one that answers 500 to each.\<close>

definition net_down :: net where
  "net_down =
     \<lparr>post_servers = (\<lambda>b. Rejected (Thrown ''Failed to fetch'')),
      head_url = (\<lambda>url headers. Rejected (Thrown ''Failed to fetch'')),
      get_tools = (\<lambda>i. Rejected (Thrown ''Failed to fetch'')),
      get_health = (\<lambda>base. Rejected (Thrown ''Failed to fetch'')),
      post_file_operation = (\<lambda>base operation path. Rejected (Thrown ''Failed to fetch''))\<rparr>"

definition net_500 :: net where
  "net_500 =
     \<lparr>post_servers = (\<lambda>b. Response 500 (Inr None)),
      head_url = (\<lambda>url headers. Response 500 ()),
      get_tools = (\<lambda>i. Response 500 (Inr [])),
      get_health = (\<lambda>base. Response 500 ()),
      post_file_operation = (\<lambda>base operation path. Response 500 (Inr JNull))\<rparr>"

definition local_bridge :: BridgeMCPClient where
  "local_bridge = \<lparr>bridgeUrl = ''http://localhost:3001'', br_isConnected = True\<rparr>"

section \<open>Properties of the server-side manager\<close>

lemma map_get_map_delete: "map_get (map_delete k m) k = None"
  by (induction m) (auto simp: map_get_def map_delete_def)

lemma map_delete_absent: "map_get m k = None \<Longrightarrow> map_delete k m = m"
  by (induction m) (auto simp: map_get_def map_delete_def split: if_splits)


lemma map_get_map_set: "map_get (map_set k v m) k = Some v"
  by (induction m) (auto simp: map_get_def)

lemma map_delete_map_set: "map_delete k (map_set k v m) = map_delete k m"
  by (induction m) (auto simp: map_delete_def)

lemma map_get_distinct:
  "distinct (map fst m) \<Longrightarrow> (k, v) \<in> set m \<Longrightarrow> map_get m k = Some v"
  by (simp add: map_get_def)

lemma after_removeServer: "after (removeServer w serverId servers) = map_delete serverId servers"
  by (auto simp: removeServer_def Let_def map_delete_absent split: option.splits prod.splits)

lemma result_removeServer: "result (removeServer w serverId servers) = Inr ()"
  by (auto simp: removeServer_def Let_def split: option.splits prod.splits)

text \<open>
  C3. For a server id whose session is absent from the registry, or present and not
  flagged connected, \<open>listTools\<close> and \<open>callTool\<close> fail with the error "Server not found
  or not connected", make no call to the SDK and leave the registry, the session's flag
  included, as it was.
\<close>

theorem not_connected_rejected:
  assumes "map_get servers serverId = None \<or>
           (\<exists>server. map_get servers serverId = Some server \<and> \<not> sp_isConnected server)"
  shows "listTools w serverId servers =
           \<lparr>result = Inl ServerNotConnected, after = servers, calls = []\<rparr> \<and>
         callTool w serverId toolName args servers =
           \<lparr>result = Inl ServerNotConnected, after = servers, calls = []\<rparr>"
  using assms by (auto simp: listTools_def callTool_def split: option.splits)

theorem not_connected_rejected_witness:
  "listTools sdk_up ''idle'' [(''echo'', echo_session), (''idle'', idle_session)] =
     \<lparr>result = Inl ServerNotConnected,
      after = [(''echo'', echo_session), (''idle'', idle_session)], calls = []\<rparr> \<and>
   callTool sdk_up ''idle'' ''echo'' JNull [(''echo'', echo_session), (''idle'', idle_session)] =
     \<lparr>result = Inl ServerNotConnected,
      after = [(''echo'', echo_session), (''idle'', idle_session)], calls = []\<rparr> \<and>
   listTools sdk_up ''gone'' [(''echo'', echo_session), (''idle'', idle_session)] =
     \<lparr>result = Inl ServerNotConnected,
      after = [(''echo'', echo_session), (''idle'', idle_session)], calls = []\<rparr>"
proof -
  have idle: "map_get [(''echo'', echo_session), (''idle'', idle_session)] ''idle'' = None \<or>
        (\<exists>server. map_get [(''echo'', echo_session), (''idle'', idle_session)] ''idle'' = Some server
                  \<and> \<not> sp_isConnected server)"
    by (simp add: map_get_def idle_session_def)
  have gone: "map_get [(''echo'', echo_session), (''idle'', idle_session)] ''gone'' = None \<or>
        (\<exists>server. map_get [(''echo'', echo_session), (''idle'', idle_session)] ''gone'' = Some server
                  \<and> \<not> sp_isConnected server)"
    by (simp add: map_get_def)
  show ?thesis
    using not_connected_rejected [OF idle, of sdk_up "''echo''" JNull]
          not_connected_rejected [OF gone, of sdk_up "''echo''" JNull]
    by simp
qed

text \<open>
  C2. When establishing the connection throws, \<open>addServer\<close> fails with that very error,
  the registry afterwards is the registry before (no session was stored), and the
  connection attempt is the only call it made.
\<close>

theorem addServer_connect_throws:
  assumes "client_connect w (stdio_transport w config) = Inl cause"
  shows "result (addServer w config servers) = Inl cause \<and>
         after (addServer w config servers) = servers \<and>
         calls (addServer w config servers) = [Connect (stdio_transport w config)]"
  using assms by (simp add: addServer_def Let_def)

theorem addServer_connect_throws_witness:
  "result (addServer sdk_down echo_config [(''idle'', idle_session)])
     = Inl (Thrown ''spawn echo-tool-server ENOENT'') \<and>
   after (addServer sdk_down echo_config [(''idle'', idle_session)]) = [(''idle'', idle_session)] \<and>
   calls (addServer sdk_down echo_config [(''idle'', idle_session)])
     = [Connect (NewStdioClientTransport ''echo-tool-server'' [] Map.empty)]"
proof -
  have t: "stdio_transport sdk_down echo_config = NewStdioClientTransport ''echo-tool-server'' [] Map.empty"
    by (simp add: stdio_transport_def sdk_down_def sdk_up_def echo_config_def)
  have throws: "client_connect sdk_down (stdio_transport sdk_down echo_config)
                  = Inl (Thrown ''spawn echo-tool-server ENOENT'')"
    by (simp add: sdk_down_def)
  show ?thesis
    using addServer_connect_throws [OF throws, of "[(''idle'', idle_session)]"] by (simp add: t)
qed

text \<open>
  C4. \<open>addServer\<close> followed by \<open>removeServer\<close> of the same id leaves the registry
  without that id, hence empty when it was empty before; when the add had connected a
  client, the remove closes exactly that client (the one handle the session owns).
  \<open>removeServer\<close> never fails, and it is idempotent: on an absent id, and so the second
  time on the same id, it returns without a call and without a change.
\<close>

theorem add_then_remove:
  "after (removeServer w (sc_id config) (after (addServer w config servers)))
     = map_delete (sc_id config) servers \<and>
   after (removeServer w (sc_id config) (after (addServer w config []))) = [] \<and>
   (\<forall>client. client_connect w (stdio_transport w config) = Inr client \<longrightarrow>
      calls (removeServer w (sc_id config) (after (addServer w config servers))) = [Close client]) \<and>
   result (removeServer w serverId servers) = Inr () \<and>
   (map_get servers serverId = None \<longrightarrow>
      removeServer w serverId servers = \<lparr>result = Inr (), after = servers, calls = []\<rparr>) \<and>
   removeServer w serverId (after (removeServer w serverId servers))
     = \<lparr>result = Inr (), after = after (removeServer w serverId servers), calls = []\<rparr>"
proof -
  have general: "after (removeServer w (sc_id config) (after (addServer w config xs)))
                   = map_delete (sc_id config) xs" for xs
    by (cases "client_connect w (stdio_transport w config)")
       (simp_all add: after_removeServer addServer_def Let_def map_delete_map_set)
  have closes: "calls (removeServer w (sc_id config) (after (addServer w config servers))) = [Close client]"
    if "client_connect w (stdio_transport w config) = Inr client" for client
    using that
    by (simp add: addServer_def Let_def removeServer_def map_get_map_set split: sum.splits)
  have absent: "removeServer w i xs = \<lparr>result = Inr (), after = xs, calls = []\<rparr>"
    if "map_get xs i = None" for i xs
    using that by (simp add: removeServer_def)
  have twice: "removeServer w serverId (after (removeServer w serverId servers))
     = \<lparr>result = Inr (), after = after (removeServer w serverId servers), calls = []\<rparr>"
    by (rule absent) (simp add: after_removeServer map_get_map_delete)
  show ?thesis
    using general [of servers] general [of "[]"] closes absent [of servers serverId] twice
    by (simp add: result_removeServer map_delete_def)
qed

theorem add_then_remove_witness:
  "after (removeServer sdk_up ''echo'' (after (addServer sdk_up echo_config []))) = [] \<and>
   calls (removeServer sdk_up ''echo'' (after (addServer sdk_up echo_config []))) = [Close 2] \<and>
   removeServer sdk_up ''echo'' [] = \<lparr>result = Inr (), after = [], calls = []\<rparr>"
proof -
  have connects: "client_connect sdk_up (stdio_transport sdk_up echo_config) = Inr 2"
    by (simp add: sdk_up_def)
  have absent: "map_get ([] :: registry) ''echo'' = None"
    by (simp add: map_get_def)
  have id: "sc_id echo_config = ''echo''"
    by (simp add: echo_config_def)
  show ?thesis
    using add_then_remove [of sdk_up echo_config "[]" "''echo''"] connects absent
    by (simp add: id map_delete_def)
qed

lemma getAllTools_loop_eq:
  "distinct (map fst servers) \<Longrightarrow> set entries \<subseteq> set servers \<Longrightarrow>
   getAllTools_loop w servers entries results made =
     (results @ concat (map (contribution w) entries), made @ concat (map asked entries))"
proof (induction entries arbitrary: results made)
  case Nil
  then show ?case by simp
next
  case (Cons entry entries)
  obtain serverId server where entry: "entry = (serverId, server)" by (cases entry)
  from Cons.prems entry have get: "map_get servers serverId = Some server"
    by (simp add: map_get_distinct)
  from Cons.prems have sub: "set entries \<subseteq> set servers" by simp
  show ?case
    using Cons.IH [OF Cons.prems(1) sub] get
    by (auto simp: entry contribution_def asked_def listTools_def Let_def
             split: option.splits sum.splits)
qed

text \<open>
  C5. \<open>getAllTools\<close> never fails and leaves the registry as it was. On a registry (a
  map: one entry per id) it asks every session that is connected and holds a client,
  once and in order, and returns the tools of those that answered, each under its id; a
  session that is not connected or whose \<open>listTools\<close> throws is left out. So with one
  connected server and one that is disconnected, or that throws, only the tools of the
  first are returned.
\<close>

theorem getAllTools_tolerant:
  "(\<exists>results. result (getAllTools w servers) = Inr results) \<and>
   after (getAllTools w servers) = servers \<and>
   (distinct (map fst servers) \<longrightarrow>
      result (getAllTools w servers) = Inr (concat (map (contribution w) servers)) \<and>
      calls (getAllTools w servers) = concat (map asked servers)) \<and>
   (a \<noteq> b \<and> sp_isConnected sa \<and> sp_client sa = Some ca \<and>
    client_listTools w ca = Inr (Some tools) \<and> \<not> sp_isConnected sb \<longrightarrow>
      getAllTools w [(a, sa), (b, sb)] =
        \<lparr>result = Inr [(a, tools)], after = [(a, sa), (b, sb)], calls = [ListTools ca]\<rparr>) \<and>
   (a \<noteq> b \<and> sp_isConnected sa \<and> sp_client sa = Some ca \<and>
    client_listTools w ca = Inr (Some tools) \<and>
    sp_isConnected sb \<and> sp_client sb = Some cb \<and> client_listTools w cb = Inl e \<longrightarrow>
      getAllTools w [(a, sa), (b, sb)] =
        \<lparr>result = Inr [(a, tools)], after = [(a, sa), (b, sb)],
         calls = [ListTools ca, ListTools cb]\<rparr>)"
proof -
  have never_fails: "\<exists>results. result (getAllTools w servers) = Inr results"
    by (simp add: getAllTools_def split_beta)
  have frame: "after (getAllTools w servers) = servers"
    by (simp add: getAllTools_def split_beta)
  have every: "distinct (map fst servers) \<longrightarrow>
      result (getAllTools w servers) = Inr (concat (map (contribution w) servers)) \<and>
      calls (getAllTools w servers) = concat (map asked servers)"
    by (simp add: getAllTools_def getAllTools_loop_eq)
  have disconnected: "a \<noteq> b \<and> sp_isConnected sa \<and> sp_client sa = Some ca \<and>
    client_listTools w ca = Inr (Some tools) \<and> \<not> sp_isConnected sb \<longrightarrow>
      getAllTools w [(a, sa), (b, sb)] =
        \<lparr>result = Inr [(a, tools)], after = [(a, sa), (b, sb)], calls = [ListTools ca]\<rparr>"
    by (simp add: getAllTools_def listTools_def map_get_def)
  have throwing: "a \<noteq> b \<and> sp_isConnected sa \<and> sp_client sa = Some ca \<and>
    client_listTools w ca = Inr (Some tools) \<and>
    sp_isConnected sb \<and> sp_client sb = Some cb \<and> client_listTools w cb = Inl e \<longrightarrow>
      getAllTools w [(a, sa), (b, sb)] =
        \<lparr>result = Inr [(a, tools)], after = [(a, sa), (b, sb)],
         calls = [ListTools ca, ListTools cb]\<rparr>"
    by (simp add: getAllTools_def listTools_def map_get_def)
  from never_fails frame every disconnected throwing show ?thesis by blast
qed

theorem getAllTools_tolerant_witness:
  "getAllTools sdk_up [(''echo'', echo_session), (''idle'', idle_session)] =
     \<lparr>result = Inr [(''echo'', [JObj [(''name'', JStr ''echo'')]])],
      after = [(''echo'', echo_session), (''idle'', idle_session)],
      calls = [ListTools 1]\<rparr>"
proof -
  have facts: "''echo'' \<noteq> ''idle'' \<and> sp_isConnected echo_session \<and> sp_client echo_session = Some 1 \<and>
        client_listTools sdk_up 1 = Inr (Some [JObj [(''name'', JStr ''echo'')]]) \<and>
        \<not> sp_isConnected idle_session"
    by (simp add: echo_session_def idle_session_def sdk_up_def)
  show ?thesis
    using getAllTools_tolerant
            [of sdk_up "[]" "''echo''" "''idle''" echo_session 1
                "[JObj [(''name'', JStr ''echo'')]]" idle_session 1 "Thrown []"]
          facts
    by simp
qed

text \<open>
  C1, as the manager has it. \<open>ServerSideMCPManager.addServer\<close> on an id that is already
  in the registry, with a process that starts: the call succeeds and the id maps to a
  new session; the session that was there is no longer in the registry.
\<close>

theorem addServer_duplicate_counterexample:
  "map_get [(''echo'', echo_session)] ''echo'' = Some echo_session \<and>
   sc_id echo_config = ''echo'' \<and>
   result (addServer sdk_up echo_config [(''echo'', echo_session)]) = Inr () \<and>
   map_get (after (addServer sdk_up echo_config [(''echo'', echo_session)])) ''echo''
     = Some (echo_session\<lparr>sp_client := Some 2\<rparr>) \<and>
   echo_session\<lparr>sp_client := Some 2\<rparr> \<noteq> echo_session"
  by (simp add: addServer_def stdio_transport_def Let_def map_get_def sdk_up_def echo_config_def
        echo_session_def)


section \<open>Properties of the browser-side client\<close>

text \<open>
  C6. For an SSE server with a non-empty url, \<open>connect\<close> makes the one probe request
  and returns with the client flagged connected, whatever the probe met. The probe
  itself counts a response as reachable exactly when its status is ok (200 to 299) or
  405.
\<close>

theorem sse_probe_advisory:
  assumes "cfg_transport (mc_config this) = Some Sse"
    and "cfg_url (mc_config this) = Some url"
    and "url \<noteq> []"
  shows "connect w this =
           \<lparr>result = Inr (), after = this\<lparr>mc_isConnected := True\<rparr>,
            calls = [HeadUrl url (sse_headers (mc_config this))]\<rparr> \<and>
         (sse_probe w (mc_config this) url = Inr () \<longleftrightarrow>
            (\<exists>status b. head_url w url (sse_headers (mc_config this)) = Response status b \<and>
                        (ok status \<or> status = 405)))"
proof -
  have runs: "connect w this =
           \<lparr>result = Inr (), after = this\<lparr>mc_isConnected := True\<rparr>,
            calls = [HeadUrl url (sse_headers (mc_config this))]\<rparr>"
    using assms by (simp add: connect_def connect_try_def empty_str_def split: sum.splits)
  have probe: "sse_probe w (mc_config this) url = Inr () \<longleftrightarrow>
            (\<exists>status b. head_url w url (sse_headers (mc_config this)) = Response status b \<and>
                        (ok status \<or> status = 405))"
    by (cases "head_url w url (sse_headers (mc_config this))") (auto simp: sse_probe_def)
  from runs probe show ?thesis by simp
qed

theorem sse_probe_advisory_witness:
  "connect net_down \<lparr>mc_config = demo_server_2, mc_isConnected = False\<rparr> =
     \<lparr>result = Inr (), after = \<lparr>mc_config = demo_server_2, mc_isConnected = True\<rparr>,
      calls = [HeadUrl ''http://localhost:8080/mcp/events'' (sse_headers demo_server_2)]\<rparr> \<and>
   connect net_500 \<lparr>mc_config = demo_server_2, mc_isConnected = False\<rparr> =
     \<lparr>result = Inr (), after = \<lparr>mc_config = demo_server_2, mc_isConnected = True\<rparr>,
      calls = [HeadUrl ''http://localhost:8080/mcp/events'' (sse_headers demo_server_2)]\<rparr> \<and>
   sse_probe net_500 demo_server_2 ''http://localhost:8080/mcp/events'' \<noteq> Inr ()"
proof -
  have sse: "cfg_transport (mc_config \<lparr>mc_config = demo_server_2, mc_isConnected = False\<rparr>) = Some Sse"
    by (simp add: demo_server_2_def)
  have url: "cfg_url (mc_config \<lparr>mc_config = demo_server_2, mc_isConnected = False\<rparr>)
               = Some ''http://localhost:8080/mcp/events''"
    by (simp add: demo_server_2_def)
  have nonempty: "''http://localhost:8080/mcp/events'' \<noteq> []"
    by simp
  show ?thesis
    using sse_probe_advisory [OF sse url nonempty, of net_down]
          sse_probe_advisory [OF sse url nonempty, of net_500]
    by (simp add: net_500_def ok_def)
qed

text \<open>
  C10. \<open>getServerTools\<close> never fails. For an id with no client, or with a client that is
  not flagged connected, it returns the empty list without a request. When the client's
  \<open>listTools\<close> fails it returns the fixed file tools for \<open>demo-server-1\<close>, the fixed web
  tools for \<open>demo-server-2\<close>, and the empty list for every other id.
\<close>

theorem getServerTools_never_throws:
  "(\<exists>names. result (getServerTools w serverId cs) = Inr names) \<and>
   (map_get cs serverId = None \<longrightarrow>
      getServerTools w serverId cs = \<lparr>result = Inr [], after = cs, calls = []\<rparr>) \<and>
   (\<forall>client. map_get cs serverId = Some client \<and> \<not> getConnectionStatus client \<longrightarrow>
      getServerTools w serverId cs = \<lparr>result = Inr [], after = cs, calls = []\<rparr>) \<and>
   (\<forall>client e. map_get cs serverId = Some client \<and> getConnectionStatus client \<and>
      result (MCPClient_listTools w client) = Inl e \<longrightarrow>
      result (getServerTools w serverId cs) =
        Inr (if serverId = ''demo-server-1''
             then [''file_read'', ''file_write'', ''file_list'', ''dir_create'', ''search_files'']
             else if serverId = ''demo-server-2''
             then [''web_scrape'', ''api_call'', ''http_request'', ''json_parse'', ''url_validate'']
             else []))"
proof -
  have never: "\<exists>names. result (getServerTools w serverId cs) = Inr names"
    by (simp add: getServerTools_def Let_def split: option.splits sum.splits)
  have absent: "map_get cs serverId = None \<longrightarrow>
      getServerTools w serverId cs = \<lparr>result = Inr [], after = cs, calls = []\<rparr>"
    by (simp add: getServerTools_def)
  have unflagged: "\<forall>client. map_get cs serverId = Some client \<and> \<not> getConnectionStatus client \<longrightarrow>
      getServerTools w serverId cs = \<lparr>result = Inr [], after = cs, calls = []\<rparr>"
    by (simp add: getServerTools_def)
  have failing: "\<forall>client e. map_get cs serverId = Some client \<and> getConnectionStatus client \<and>
      result (MCPClient_listTools w client) = Inl e \<longrightarrow>
      result (getServerTools w serverId cs) =
        Inr (if serverId = ''demo-server-1''
             then [''file_read'', ''file_write'', ''file_list'', ''dir_create'', ''search_files'']
             else if serverId = ''demo-server-2''
             then [''web_scrape'', ''api_call'', ''http_request'', ''json_parse'', ''url_validate'']
             else [])"
    by (simp add: getServerTools_def Let_def)
  from never absent unflagged failing show ?thesis by blast
qed

theorem getServerTools_never_throws_witness:
  "result (getServerTools net_down ''demo-server-1'' demo_clients)
     = Inr [''file_read'', ''file_write'', ''file_list'', ''dir_create'', ''search_files''] \<and>
   getServerTools net_down ''demo-server-2'' demo_clients
     = \<lparr>result = Inr [], after = demo_clients, calls = []\<rparr>"
proof -
  have held: "map_get demo_clients ''demo-server-1''
                = Some \<lparr>mc_config = demo_server_1, mc_isConnected = True\<rparr>"
    by (simp add: demo_clients_def map_get_def)
  have flagged: "getConnectionStatus \<lparr>mc_config = demo_server_1, mc_isConnected = True\<rparr>"
    by (simp add: getConnectionStatus_def)
  have fails: "result (MCPClient_listTools net_down \<lparr>mc_config = demo_server_1, mc_isConnected = True\<rparr>)
                 = Inl (Thrown ''Failed to fetch'')"
    by (simp add: MCPClient_listTools_def net_down_def)
  have none: "map_get demo_clients ''demo-server-2'' = None"
    by (simp add: demo_clients_def map_get_def)
  show ?thesis
    using getServerTools_never_throws [of net_down "''demo-server-1''" demo_clients]
          getServerTools_never_throws [of net_down "''demo-server-2''" demo_clients]
          held flagged fails none
    by simp
qed

section \<open>Properties of the store\<close>

lemma getServerTools_calls: "list_all is_GetTools (calls (getServerTools w serverId cs))"
  by (simp add: getServerTools_def MCPClient_listTools_def is_GetTools_def Let_def
           split: option.splits)

lemma refresh_loop_calls:
  "list_all is_GetTools made \<Longrightarrow>
   list_all is_GetTools (snd (refresh_loop w cs servers totalTools made))"
proof (induction servers arbitrary: totalTools made)
  case Nil
  then show ?case by simp
next
  case (Cons server servers)
  then show ?case
    using getServerTools_calls [of w "cfg_id server" cs]
    by (auto simp: Let_def split: sum.splits)
qed

lemma refreshMCPTools_frame:
  "mcpServers (after (refreshMCPTools w s)) = mcpServers s \<and>
   mcpClientManager (after (refreshMCPTools w s)) = mcpClientManager s \<and>
   isLoading (after (refreshMCPTools w s)) = isLoading s \<and>
   store_error (after (refreshMCPTools w s)) = store_error s \<and>
   result (refreshMCPTools w s) = Inr ()"
  by (simp add: refreshMCPTools_def Let_def split_beta)

lemma refreshMCPTools_calls: "list_all is_GetTools (calls (refreshMCPTools w s))"
  using refresh_loop_calls [of "[]" w "mcpClientManager s" "mcpServers s" "[]"]
  by (simp add: refreshMCPTools_def Let_def split_beta)

lemma find_same_id:
  "find (\<lambda>x. cfg_id x = i) xs \<noteq> None \<longleftrightarrow> i \<in> cfg_id ` set xs"
  by (induction xs) auto

text \<open>
  C9. \<open>toggleMCPServer\<close> returns with the list of servers as long as before and, place
  by place, the same server, with \<open>isConnected\<close> negated where the id is the one given
  and nothing else changed; the ids are the same in the same order. The client manager
  (its clients and their flags) is as before, and the only requests made are those that
  list tools: nothing connects, probes or disconnects. With no server of that id the
  list is unchanged.
\<close>

theorem toggle_flips_flag_only:
  "result (toggleMCPServer w serverId s) = Inr () \<and>
   length (mcpServers (after (toggleMCPServer w serverId s))) = length (mcpServers s) \<and>
   (\<forall>i < length (mcpServers s).
      mcpServers (after (toggleMCPServer w serverId s)) ! i =
        (if cfg_id (mcpServers s ! i) = serverId then toggled (mcpServers s ! i)
         else mcpServers s ! i)) \<and>
   map cfg_id (mcpServers (after (toggleMCPServer w serverId s))) = map cfg_id (mcpServers s) \<and>
   mcpClientManager (after (toggleMCPServer w serverId s)) = mcpClientManager s \<and>
   list_all is_GetTools (calls (toggleMCPServer w serverId s)) \<and>
   (serverId \<notin> cfg_id ` set (mcpServers s) \<longrightarrow>
      mcpServers (after (toggleMCPServer w serverId s)) = mcpServers s)"
proof -
  let ?flip = "\<lambda>server. if cfg_id server = serverId
                        then server\<lparr>cfg_isConnected := \<not> cfg_isConnected server\<rparr> else server"
  have servers: "mcpServers (after (toggleMCPServer w serverId s)) = map ?flip (mcpServers s)"
    by (simp add: toggleMCPServer_def Let_def refreshMCPTools_frame)
  have ids: "map cfg_id (map ?flip (mcpServers s)) = map cfg_id (mcpServers s)"
    by (induction "mcpServers s") auto
  have absent: "serverId \<notin> cfg_id ` set xs \<Longrightarrow> map ?flip xs = xs" for xs
    by (induction xs) auto
  have returns: "result (toggleMCPServer w serverId s) = Inr ()"
    by (simp add: toggleMCPServer_def Let_def refreshMCPTools_frame)
  have clients: "mcpClientManager (after (toggleMCPServer w serverId s)) = mcpClientManager s"
    by (simp add: toggleMCPServer_def Let_def refreshMCPTools_frame)
  have requests: "list_all is_GetTools (calls (toggleMCPServer w serverId s))"
    by (simp add: toggleMCPServer_def Let_def refreshMCPTools_calls)
  show ?thesis
    using returns clients requests ids absent [of "mcpServers s"]
    by (simp add: servers toggled_def)
qed

theorem toggle_flips_flag_only_witness:
  "mcpServers (after (toggleMCPServer net_down ''demo-server-2'' initial_store))
     = [demo_server_1, demo_server_2\<lparr>cfg_isConnected := True\<rparr>] \<and>
   mcpClientManager (after (toggleMCPServer net_down ''demo-server-2'' initial_store)) = [] \<and>
   mcpServers (after (toggleMCPServer net_down ''demo-server-3'' initial_store))
     = [demo_server_1, demo_server_2]"
proof -
  have absent: "''demo-server-3'' \<notin> cfg_id ` set (mcpServers initial_store)"
    by (simp add: initial_store_def demo_server_1_def demo_server_2_def)
  have flipped: "mcpServers (after (toggleMCPServer net_down ''demo-server-2'' initial_store))
     = [demo_server_1, demo_server_2\<lparr>cfg_isConnected := True\<rparr>]"
  proof (rule nth_equalityI)
    show "length (mcpServers (after (toggleMCPServer net_down ''demo-server-2'' initial_store)))
            = length [demo_server_1, demo_server_2\<lparr>cfg_isConnected := True\<rparr>]"
      using toggle_flips_flag_only [of net_down "''demo-server-2''" initial_store]
      by (simp add: initial_store_def)
  next
    fix i
    assume "i < length (mcpServers (after (toggleMCPServer net_down ''demo-server-2'' initial_store)))"
    then have "i < 2"
      using toggle_flips_flag_only [of net_down "''demo-server-2''" initial_store]
      by (simp add: initial_store_def)
    then have "i = 0 \<or> i = 1" by auto
    then show "mcpServers (after (toggleMCPServer net_down ''demo-server-2'' initial_store)) ! i
                 = [demo_server_1, demo_server_2\<lparr>cfg_isConnected := True\<rparr>] ! i"
      using toggle_flips_flag_only [of net_down "''demo-server-2''" initial_store]
      by (auto simp: initial_store_def toggled_def demo_server_1_def demo_server_2_def)
  qed
  show ?thesis
    using toggle_flips_flag_only [of net_down "''demo-server-3''" initial_store] absent flipped
          toggle_flips_flag_only [of net_down "''demo-server-2''" initial_store]
    by (simp add: initial_store_def)
qed

text \<open>
  The revision of the store without the check, given a server whose id is already among
  \<open>mcpServers\<close>: the add succeeds and the list holds that id twice.
\<close>

lemma addMCPServer_unchecked_appends:
  "result (addMCPServer_unchecked net_down demo_server_2 initial_store) = Inr () \<and>
   map cfg_id (mcpServers (after (addMCPServer_unchecked net_down demo_server_2 initial_store)))
     = [''demo-server-1'', ''demo-server-2'', ''demo-server-2'']"
proof -
  have connects: "result (MCPClientManager_addServer net_down demo_server_2 []) = Inr ()"
    by (simp add: MCPClientManager_addServer_def connect_def connect_try_def Let_def
          demo_server_2_def empty_str_def split: sum.splits)
  show ?thesis
    using connects
    by (simp add: addMCPServer_unchecked_def Let_def initial_store_def refreshMCPTools_frame
          demo_server_1_def demo_server_2_def)
qed

text \<open>
  C1, as the store of \<^verbatim>\<open>src/unnamed/part_007\<close> has it. For a server whose id is already
  among \<open>mcpServers\<close>, \<open>addMCPServer\<close> fails before any request and leaves the store as
  it was: the servers, the clients, the tools and the flags. The error is the first
  that applies of: id and name are required, when either is empty; a command is
  required, when the transport is stdio and the command is missing or empty; a url is
  required, when the transport is SSE or WebSocket and the url is missing or empty; a
  server of this id already exists, in every other case, which is when the server
  passes the validation.
\<close>

theorem addMCPServer_duplicate:
  assumes "cfg_id config \<in> cfg_id ` set (mcpServers s)"
  shows "(\<exists>e. result (addMCPServer w config s) = Inl e) \<and>
         after (addMCPServer w config s) = s \<and>
         calls (addMCPServer w config s) = [] \<and>
         (passes_validation config \<longrightarrow>
            result (addMCPServer w config s) = Inl (ServerAlreadyExists (cfg_id config))) \<and>
         (empty_str (cfg_id config) \<or> empty_str (cfg_name config) \<longrightarrow>
            result (addMCPServer w config s) = Inl ServerIdAndNameRequired) \<and>
         (\<not> empty_str (cfg_id config) \<and> \<not> empty_str (cfg_name config) \<and>
          cfg_transport config = Some Stdio \<and> falsy (cfg_command config) \<longrightarrow>
            result (addMCPServer w config s) = Inl CommandRequired) \<and>
         (\<not> empty_str (cfg_id config) \<and> \<not> empty_str (cfg_name config) \<and>
          (cfg_transport config = Some Sse \<or> cfg_transport config = Some Websocket) \<and>
          falsy (cfg_url config) \<longrightarrow>
            result (addMCPServer w config s) = Inl UrlRequired) \<and>
         (passes_validation config \<or> empty_str (cfg_id config) \<or> empty_str (cfg_name config) \<or>
          (cfg_transport config = Some Stdio \<and> falsy (cfg_command config)) \<or>
          ((cfg_transport config = Some Sse \<or> cfg_transport config = Some Websocket) \<and>
           falsy (cfg_url config)))"
proof -
  have found: "find (\<lambda>x. cfg_id x = cfg_id config) (mcpServers s) \<noteq> None"
    using assms find_same_id [of "cfg_id config" "mcpServers s"] by simp
  have fails: "\<exists>e. result (addMCPServer w config s) = Inl e"
    using found by (simp add: addMCPServer_def)
  have store: "after (addMCPServer w config s) = s"
    using found by (simp add: addMCPServer_def)
  have requests: "calls (addMCPServer w config s) = []"
    using found by (simp add: addMCPServer_def)
  have exists: "passes_validation config \<longrightarrow>
            result (addMCPServer w config s) = Inl (ServerAlreadyExists (cfg_id config))"
    using found by (auto simp: addMCPServer_def passes_validation_def)
  have id_name: "empty_str (cfg_id config) \<or> empty_str (cfg_name config) \<longrightarrow>
            result (addMCPServer w config s) = Inl ServerIdAndNameRequired"
    by (auto simp: addMCPServer_def)
  have command: "\<not> empty_str (cfg_id config) \<and> \<not> empty_str (cfg_name config) \<and>
          cfg_transport config = Some Stdio \<and> falsy (cfg_command config) \<longrightarrow>
            result (addMCPServer w config s) = Inl CommandRequired"
    by (auto simp: addMCPServer_def)
  have url: "\<not> empty_str (cfg_id config) \<and> \<not> empty_str (cfg_name config) \<and>
          (cfg_transport config = Some Sse \<or> cfg_transport config = Some Websocket) \<and>
          falsy (cfg_url config) \<longrightarrow>
            result (addMCPServer w config s) = Inl UrlRequired"
    by (auto simp: addMCPServer_def)
  have cases: "passes_validation config \<or> empty_str (cfg_id config) \<or> empty_str (cfg_name config) \<or>
          (cfg_transport config = Some Stdio \<and> falsy (cfg_command config)) \<or>
          ((cfg_transport config = Some Sse \<or> cfg_transport config = Some Websocket) \<and>
           falsy (cfg_url config))"
    by (auto simp: passes_validation_def)
  from fails store requests exists id_name command url cases show ?thesis by blast
qed

theorem addMCPServer_duplicate_witness:
  "addMCPServer net_down demo_server_2 initial_store =
     \<lparr>result = Inl (ServerAlreadyExists ''demo-server-2''), after = initial_store, calls = []\<rparr> \<and>
   addMCPServer net_down (demo_server_2\<lparr>cfg_url := None\<rparr>) initial_store =
     \<lparr>result = Inl UrlRequired, after = initial_store, calls = []\<rparr> \<and>
   addMCPServer net_down (demo_server_2\<lparr>cfg_name := []\<rparr>) initial_store =
     \<lparr>result = Inl ServerIdAndNameRequired, after = initial_store, calls = []\<rparr>"
proof -
  have present: "cfg_id demo_server_2 \<in> cfg_id ` set (mcpServers initial_store)"
    by (simp add: initial_store_def)
  have present_no_url:
    "cfg_id (demo_server_2\<lparr>cfg_url := None\<rparr>) \<in> cfg_id ` set (mcpServers initial_store)"
    by (simp add: initial_store_def)
  have present_no_name:
    "cfg_id (demo_server_2\<lparr>cfg_name := []\<rparr>) \<in> cfg_id ` set (mcpServers initial_store)"
    by (simp add: initial_store_def)
  have valid: "passes_validation demo_server_2"
    by (simp add: passes_validation_def demo_server_2_def empty_str_def falsy_def)
  have no_url: "\<not> empty_str (cfg_id (demo_server_2\<lparr>cfg_url := None\<rparr>)) \<and>
                \<not> empty_str (cfg_name (demo_server_2\<lparr>cfg_url := None\<rparr>)) \<and>
                (cfg_transport (demo_server_2\<lparr>cfg_url := None\<rparr>) = Some Sse \<or>
                 cfg_transport (demo_server_2\<lparr>cfg_url := None\<rparr>) = Some Websocket) \<and>
                falsy (cfg_url (demo_server_2\<lparr>cfg_url := None\<rparr>))"
    by (simp add: demo_server_2_def empty_str_def falsy_def)
  have no_name: "empty_str (cfg_id (demo_server_2\<lparr>cfg_name := []\<rparr>)) \<or>
                 empty_str (cfg_name (demo_server_2\<lparr>cfg_name := []\<rparr>))"
    by (simp add: empty_str_def)
  have id: "cfg_id demo_server_2 = ''demo-server-2''"
    by (simp add: demo_server_2_def)
  have first: "result (addMCPServer net_down demo_server_2 initial_store)
          = Inl (ServerAlreadyExists ''demo-server-2'') \<and>
        after (addMCPServer net_down demo_server_2 initial_store) = initial_store \<and>
        calls (addMCPServer net_down demo_server_2 initial_store) = []"
    using addMCPServer_duplicate [OF present, of net_down] valid by (simp add: id)
  have second: "result (addMCPServer net_down (demo_server_2\<lparr>cfg_url := None\<rparr>) initial_store)
          = Inl UrlRequired \<and>
        after (addMCPServer net_down (demo_server_2\<lparr>cfg_url := None\<rparr>) initial_store)
          = initial_store \<and>
        calls (addMCPServer net_down (demo_server_2\<lparr>cfg_url := None\<rparr>) initial_store) = []"
    using addMCPServer_duplicate [OF present_no_url, of net_down] no_url by blast
  have third: "result (addMCPServer net_down (demo_server_2\<lparr>cfg_name := []\<rparr>) initial_store)
          = Inl ServerIdAndNameRequired \<and>
        after (addMCPServer net_down (demo_server_2\<lparr>cfg_name := []\<rparr>) initial_store)
          = initial_store \<and>
        calls (addMCPServer net_down (demo_server_2\<lparr>cfg_name := []\<rparr>) initial_store) = []"
    using addMCPServer_duplicate [OF present_no_name, of net_down] no_name by blast
  have whole: "r = \<lparr>result = result r, after = after r, calls = calls r\<rparr>"
    for r :: "(unit, store, fetch_call) run"
    by (cases r) simp
  show ?thesis
    using first second third
          whole [of "addMCPServer net_down demo_server_2 initial_store"]
          whole [of "addMCPServer net_down (demo_server_2\<lparr>cfg_url := None\<rparr>) initial_store"]
          whole [of "addMCPServer net_down (demo_server_2\<lparr>cfg_name := []\<rparr>) initial_store"]
    by simp
qed

section \<open>Properties of the bridge client\<close>

text \<open>
  C7. No bridge operation fails. With the health flag unset each returns its fallback
  payload without a request. With the flag set and a request that fails (the network
  rejects it, the response is not ok, or its body cannot be read) each returns that same
  fallback payload.
\<close>

theorem bridge_never_raises:
  "(\<exists>p. result (analyzeProject w this path) = Inr p) \<and>
   (\<exists>p. result (listFiles w this path) = Inr p) \<and>
   (\<exists>p. result (readFile w this path) = Inr p) \<and>
   (\<not> br_isConnected this \<longrightarrow>
      analyzeProject w this path
        = \<lparr>result = Inr (getDemoAnalysis path), after = this, calls = []\<rparr> \<and>
      listFiles w this path
        = \<lparr>result = Inr (getDemoFileList path), after = this, calls = []\<rparr> \<and>
      readFile w this path
        = \<lparr>result = Inr (getDemoFileContent path), after = this, calls = []\<rparr>) \<and>
   (br_isConnected this \<and> request_fails w this ''analyze_project'' path \<longrightarrow>
      result (analyzeProject w this path) = Inr (getDemoAnalysis path)) \<and>
   (br_isConnected this \<and> request_fails w this ''list_files'' path \<longrightarrow>
      result (listFiles w this path) = Inr (getDemoFileList path)) \<and>
   (br_isConnected this \<and> request_fails w this ''read_file'' path \<longrightarrow>
      result (readFile w this path) = Inr (getDemoFileContent path))"
proof -
  have never: "(\<exists>p. result (analyzeProject w this path) = Inr p) \<and>
               (\<exists>p. result (listFiles w this path) = Inr p) \<and>
               (\<exists>p. result (readFile w this path) = Inr p)"
    by (simp add: analyzeProject_def listFiles_def readFile_def split: sum.splits)
  have unreachable: "\<not> br_isConnected this \<longrightarrow>
      analyzeProject w this path
        = \<lparr>result = Inr (getDemoAnalysis path), after = this, calls = []\<rparr> \<and>
      listFiles w this path
        = \<lparr>result = Inr (getDemoFileList path), after = this, calls = []\<rparr> \<and>
      readFile w this path
        = \<lparr>result = Inr (getDemoFileContent path), after = this, calls = []\<rparr>"
    by (simp add: analyzeProject_def listFiles_def readFile_def)
  have fails: "request_fails w this operation path \<Longrightarrow>
               \<exists>e. file_operation w this operation path = Inl e" for operation
    by (auto simp: request_fails_def file_operation_def split: http.splits sum.splits if_splits)
  have analyze: "br_isConnected this \<and> request_fails w this ''analyze_project'' path \<longrightarrow>
      result (analyzeProject w this path) = Inr (getDemoAnalysis path)"
    using fails [of "''analyze_project''"] by (auto simp: analyzeProject_def)
  have list: "br_isConnected this \<and> request_fails w this ''list_files'' path \<longrightarrow>
      result (listFiles w this path) = Inr (getDemoFileList path)"
    using fails [of "''list_files''"] by (auto simp: listFiles_def)
  have read: "br_isConnected this \<and> request_fails w this ''read_file'' path \<longrightarrow>
      result (readFile w this path) = Inr (getDemoFileContent path)"
    using fails [of "''read_file''"] by (auto simp: readFile_def)
  from never unreachable analyze list read show ?thesis by blast
qed

theorem bridge_never_raises_witness:
  "result (analyzeProject net_500 local_bridge ''/any/path'') = Inr (getDemoAnalysis ''/any/path'') \<and>
   result (listFiles net_down local_bridge ''/any/path'') = Inr (getDemoFileList ''/any/path'') \<and>
   readFile net_down (local_bridge\<lparr>br_isConnected := False\<rparr>) ''/any/path''
     = \<lparr>result = Inr (getDemoFileContent ''/any/path''),
        after = local_bridge\<lparr>br_isConnected := False\<rparr>, calls = []\<rparr>"
proof -
  have reachable: "br_isConnected local_bridge"
    by (simp add: local_bridge_def)
  have fails_500: "request_fails net_500 local_bridge ''analyze_project'' ''/any/path''"
    by (simp add: request_fails_def net_500_def ok_def)
  have fails_down: "request_fails net_down local_bridge ''list_files'' ''/any/path''"
    by (simp add: request_fails_def net_down_def)
  have unreachable: "\<not> br_isConnected (local_bridge\<lparr>br_isConnected := False\<rparr>)"
    by simp
  show ?thesis
    using bridge_never_raises [of net_500 local_bridge "''/any/path''"]
          bridge_never_raises [of net_down local_bridge "''/any/path''"]
          bridge_never_raises [of net_down "local_bridge\<lparr>br_isConnected := False\<rparr>" "''/any/path''"]
          reachable fails_500 fails_down unreachable
    by simp
qed

text \<open>
  C8. The fallback payloads depend on the path alone: two unreachable bridge clients,
  on any two networks, return the same result for the same path, for each of the three
  operations. The \<open>type\<close> and \<open>structure\<close> members of the analysis are the same for every
  path, and each of the three payloads carries a \<open>note\<close> that says the data is demo data.
\<close>

theorem fallback_deterministic:
  "(\<not> br_isConnected c1 \<and> \<not> br_isConnected c2 \<longrightarrow>
      result (analyzeProject w1 c1 path) = result (analyzeProject w2 c2 path) \<and>
      result (listFiles w1 c1 path) = result (listFiles w2 c2 path) \<and>
      result (readFile w1 c1 path) = result (readFile w2 c2 path)) \<and>
   json_get (getDemoAnalysis path) ''type'' = Some (JStr ''Demo Analysis'') \<and>
   json_get (getDemoAnalysis path) ''type'' = json_get (getDemoAnalysis path') ''type'' \<and>
   json_get (getDemoAnalysis path) ''structure'' \<noteq> None \<and>
   json_get (getDemoAnalysis path) ''structure'' = json_get (getDemoAnalysis path') ''structure'' \<and>
   json_get (getDemoAnalysis path) ''note''
     = Some (JStr ''This is demo data. Start local bridge server for real analysis.'') \<and>
   json_get (getDemoFileList path) ''note''
     = Some (JStr ''Demo file listing. Start local bridge server for real data.'') \<and>
   json_get (getDemoFileContent path) ''note''
     = Some (JStr ''Demo content. Start local bridge server for real file access.'')"
  by (simp add: analyzeProject_def listFiles_def readFile_def getDemoAnalysis_def
        getDemoFileList_def getDemoFileContent_def)

theorem fallback_deterministic_witness:
  "result (analyzeProject net_down (local_bridge\<lparr>br_isConnected := False\<rparr>) ''/any/path'')
     = result (analyzeProject net_500
                 \<lparr>bridgeUrl = ''http://localhost:4000'', br_isConnected = False\<rparr> ''/any/path'')"
  using fallback_deterministic
          [of "local_bridge\<lparr>br_isConnected := False\<rparr>"
              "\<lparr>bridgeUrl = ''http://localhost:4000'', br_isConnected = False\<rparr>"
              net_down "''/any/path''" net_500 "''/other''"]
  by simp

end
